theory Spec2Isabelle
  imports Main
begin

section \<open>The LDAP client of ldapclient.c\<close>

text \<open>
  A shallow embedding of \<^verbatim>\<open>src/ldapclient.c\<close>, the \<^verbatim>\<open>LDAPClient\<close> type of the pyLDAP
  extension module. The C functions call into libldap and into the Python runtime; both
  are outside the file. The embedding makes them explicit:

  \<^item> what libldap answers is a record \<open>transport\<close> of functions, one field per libldap
    entry point the file calls, so that every theorem holds for every server behaviour;
  \<^item> what the code asks of libldap is the list \<open>sent\<close> of calls, in the order issued;
  \<^item> the Python error indicator (\<^verbatim>\<open>PyErr_SetString\<close>) is the field \<open>pyerr\<close>;
  \<^item> a \<^verbatim>\<open>PyObject *\<close> return value is a \<open>PyObject option\<close>, \<open>None\<close> being \<^verbatim>\<open>NULL\<close>;
  \<^item> the object \<^verbatim>\<open>self\<close> is passed in and returned (field \<open>client\<close>).

  The heap is taken to be unbounded: \<^verbatim>\<open>PyList_New\<close>, \<^verbatim>\<open>malloc\<close>, \<^verbatim>\<open>PyList_Append\<close>,
  \<^verbatim>\<open>PyUnicode_FromString\<close>, \<^verbatim>\<open>PyObject2char\<close>, \<^verbatim>\<open>create_sasl_defaults\<close> and
  \<^verbatim>\<open>LDAPEntry_FromLDAPMessage\<close> do not run out of memory, so the out-of-memory returns
  of the source are not branches of the model. A string that comes from a Python
  argument is the UTF-8 encoding the parser hands over.
\<close>

subsection \<open>Constants of ldap.h\<close>

definition LDAP_SUCCESS :: int where
  "LDAP_SUCCESS = 0"

definition LDAP_NO_SUCH_OBJECT :: int where
  "LDAP_NO_SUCH_OBJECT = 32"

definition LDAP_RES_SEARCH_ENTRY :: int where
  "LDAP_RES_SEARCH_ENTRY = 100"

definition LDAP_RES_SEARCH_REFERENCE :: int where
  "LDAP_RES_SEARCH_REFERENCE = 115"

definition LDAP_SCOPE_BASE :: int where
  "LDAP_SCOPE_BASE = 0"

definition LDAP_VERSION3 :: int where
  "LDAP_VERSION3 = 3"

definition LDAP_OPT_PROTOCOL_VERSION :: int where
  "LDAP_OPT_PROTOCOL_VERSION = 17"

subsection \<open>Data\<close>

text \<open>
  The struct \<^verbatim>\<open>LDAPClient\<close> (ldapclient.h): the fields the file reads and writes.
  The handle \<open>ld\<close> is opaque; the model keeps the URI it was initialised for, and
  \<open>None\<close> before any \<^verbatim>\<open>ldap_initialize\<close>. The flags are C ints.
\<close>

record LDAPClient =
  uri :: string
  ld :: "string option"
  connected :: int
  tls :: int

record LDAPURLDesc =
  lud_scheme :: string

text \<open>A \<^verbatim>\<open>struct berval\<close>; a \<^verbatim>\<open>NULL\<close> \<open>bv_val\<close> of length 0 is the empty string.\<close>

record berval =
  bv_len :: nat
  bv_val :: string

record timeval =
  tv_sec :: int
  tv_usec :: int

text \<open>
  Modelled from the spec: the \<^verbatim>\<open>LDAPEntry\<close> object (ldapentry.h, ldapentry.c) is not in the
  sources. The file reads one field of it, the list \<open>attributes\<close>; the spec's
  DirectoryEntry "exposes at least has zero attributes".
\<close>

record LDAPEntry =
  entry_dn :: string
  attributes :: "string list"

text \<open>
  One message of a search response: its type (\<^verbatim>\<open>ldap_msgtype\<close>) and the entry that
  \<^verbatim>\<open>LDAPEntry_FromLDAPMessage\<close> decodes from it.
\<close>

record LDAPMessage =
  ldap_msgtype :: int
  decoded :: LDAPEntry

text \<open>The arguments of one \<^verbatim>\<open>ldap_search_ext_s\<close> call; \<open>None\<close> is a \<^verbatim>\<open>NULL\<close> pointer.\<close>

record search_request =
  req_base :: string
  req_scope :: int
  req_filter :: "string option"
  req_attrs :: "string list option"
  req_attrsonly :: int
  req_timelimit :: "timeval option"
  req_sizelimit :: int

record sasl_defaults =
  sasl_mech :: string
  sasl_realm :: "string option"
  sasl_authcid :: "string option"
  sasl_passwd :: string
  sasl_authzid :: "string option"

datatype ldap_call =
    Call_initialize string
  | Call_set_option int int
  | Call_tls_inplace
  | Call_start_tls_s
  | Call_sasl_interactive_bind_s "string option" string sasl_defaults
  | Call_sasl_bind_s "string option" berval
  | Call_unbind_ext_s
  | Call_delete_ext_s string
  | Call_search_ext_s search_request
  | Call_whoami_s

text \<open>What libldap (and the server behind it) answers to each call of the file.\<close>

record transport =
  ldap_url_parse :: "string \<Rightarrow> int \<times> LDAPURLDesc"
  lud_err2string :: "int \<Rightarrow> string"
  ldap_err2string :: "int \<Rightarrow> string"
  ldap_tls_inplace :: int
  ldap_start_tls_s :: int
  ldap_sasl_interactive_bind_s :: "string option \<Rightarrow> string \<Rightarrow> sasl_defaults \<Rightarrow> int"
  ldap_sasl_bind_s :: "string option \<Rightarrow> berval \<Rightarrow> int"
  ldap_unbind_ext_s :: int
  ldap_delete_ext_s :: "string \<Rightarrow> int"
  ldap_search_ext_s :: "search_request \<Rightarrow> int \<times> LDAPMessage list"
  ldap_whoami_s :: "int \<times> berval option"

text \<open>
  The exceptions the file raises or lets through. \<open>SIGSEGV\<close> is not one of them: it
  marks, in the error slot, that the process has died on a \<^verbatim>\<open>NULL\<close> pointer.
\<close>

datatype exc =
    LDAPExc_UrlError
  | LDAPExc_NotConnected
  | LDAPError
  | PyExc_AttributeError
  | PyExc_TypeError
  | PyExc_UnicodeDecodeError
  | SIGSEGV

datatype PyObject =
    Py_None
  | PyList "LDAPEntry list"
  | PyEntry LDAPEntry
  | PyUnicode string

text \<open>
  The result of \<^verbatim>\<open>PyArg_ParseTupleAndKeywords\<close>: it fails, leaving a TypeError with some
  message in the error indicator, or it stores the arguments.
\<close>

datatype 'a parsed = ParseFail string | Parsed 'a

text \<open>What a call leaves behind: the C return value, the object, the error indicator
  and the libldap calls issued.\<close>

record 'r outcome =
  ret :: 'r
  client :: LDAPClient
  pyerr :: "(exc \<times> string) option"
  sent :: "ldap_call list"

definition not_connected :: "exc \<times> string" where
  "not_connected = (LDAPExc_NotConnected, ''Client has to connect to the server first.'')"

subsection \<open>Construction: LDAPClient_new, LDAPClient_init\<close>

definition LDAPClient_new :: LDAPClient where
  "LDAPClient_new = \<lparr>uri = '''', ld = None, connected = 0, tls = 0\<rparr>"

record init_args =
  arg_uri :: "string option"
  arg_tls :: "bool option"

definition PyObject_IsTrue :: "bool \<Rightarrow> int" where
  "PyObject_IsTrue b = (if b then 1 else 0)"

definition LDAPClient_init ::
  "transport \<Rightarrow> LDAPClient \<Rightarrow> init_args parsed \<Rightarrow> int outcome" where
  "LDAPClient_init t self args =
    (case args of
       ParseFail m \<Rightarrow>
         \<lparr>ret = - 1, client = self, pyerr = Some (PyExc_TypeError, m), sent = []\<rparr>
     | Parsed a \<Rightarrow>
         (let uristr = (case arg_uri a of None \<Rightarrow> ''ldap://localhost:389/'' | Some u \<Rightarrow> u);
              tls0 = (case arg_tls a of None \<Rightarrow> 0 | Some tlso \<Rightarrow> PyObject_IsTrue tlso);
              rc = fst (ldap_url_parse t uristr);
              lud = snd (ldap_url_parse t uristr)
          in if rc \<noteq> 0 then
               \<lparr>ret = - 1, client = self,
                pyerr = Some (LDAPExc_UrlError, lud_err2string t rc), sent = []\<rparr>
             else
               (let self1 = self\<lparr>uri := uristr, connected := 0, tls := tls0\<rparr>;
                    self2 = (if lud_scheme lud = ''ldaps'' then self1\<lparr>tls := 0\<rparr> else self1)
                in \<lparr>ret = 0, client = self2, pyerr = None, sent = []\<rparr>)))"

subsection \<open>LDAPClient_Connect\<close>

text \<open>
  The keyword list is binddn, password, mechanism, username, realm, authname, stored in
  \<^verbatim>\<open>binddn\<close>, \<^verbatim>\<open>pswstr\<close>, \<^verbatim>\<open>mech\<close>, \<^verbatim>\<open>authzid\<close>, \<^verbatim>\<open>realm\<close>, \<^verbatim>\<open>authcid\<close>; all optional.
\<close>

record connect_args =
  binddn :: "string option"
  pswstr :: "string option"
  mech :: "string option"
  authzid :: "string option"
  realm :: "string option"
  authcid :: "string option"

text \<open>
  Modelled from the spec: \<^verbatim>\<open>create_sasl_defaults\<close> (utils.c) is not in the sources; the
  spec has it "build mechanism-specific interactive defaults from mechanism, realm,
  authenticationID, password, authorizationID".
\<close>

definition create_sasl_defaults ::
  "string \<Rightarrow> string option \<Rightarrow> string option \<Rightarrow> string \<Rightarrow> string option \<Rightarrow> sasl_defaults" where
  "create_sasl_defaults m r c p z =
     \<lparr>sasl_mech = m, sasl_realm = r, sasl_authcid = c, sasl_passwd = p, sasl_authzid = z\<rparr>"

text \<open>
  The calls up to the StartTLS step (lines 101 to 106). \<^verbatim>\<open>&&\<close> does not evaluate
  \<^verbatim>\<open>ldap_tls_inplace\<close> unless \<^verbatim>\<open>self->tls == 1\<close>.
\<close>

definition starts_tls :: "transport \<Rightarrow> LDAPClient \<Rightarrow> bool" where
  "starts_tls t self = (tls self = 1 \<and> ldap_tls_inplace t = 0)"

definition connect_prelude :: "transport \<Rightarrow> LDAPClient \<Rightarrow> ldap_call list" where
  "connect_prelude t self =
     [Call_initialize (uri self), Call_set_option LDAP_OPT_PROTOCOL_VERSION LDAP_VERSION3]
     @ (if tls self = 1 then [Call_tls_inplace] else [])
     @ (if starts_tls t self then [Call_start_tls_s] else [])"

text \<open>The bind step (lines 113 to 127): the call issued and its status.\<close>

definition connect_bind :: "transport \<Rightarrow> connect_args \<Rightarrow> ldap_call \<times> int" where
  "connect_bind t a =
     (case mech a of
        Some m \<Rightarrow>
          (let p = (case pswstr a of None \<Rightarrow> '''' | Some s \<Rightarrow> s);
               defaults = create_sasl_defaults m (realm a) (authcid a) p (authzid a)
           in (Call_sasl_interactive_bind_s (binddn a) m defaults,
               ldap_sasl_interactive_bind_s t (binddn a) m defaults))
      | None \<Rightarrow>
          (let passwd =
                 \<lparr>bv_len = (case pswstr a of None \<Rightarrow> 0 | Some s \<Rightarrow> length s),
                  bv_val = (case pswstr a of None \<Rightarrow> '''' | Some s \<Rightarrow> s)\<rparr>
           in (Call_sasl_bind_s (binddn a) passwd, ldap_sasl_bind_s t (binddn a) passwd)))"

definition LDAPClient_Connect ::
  "transport \<Rightarrow> LDAPClient \<Rightarrow> connect_args parsed \<Rightarrow> PyObject option outcome" where
  "LDAPClient_Connect t self args =
    (case args of
       ParseFail m \<Rightarrow>
         \<lparr>ret = None, client = self,
          pyerr = Some (PyExc_AttributeError, ''Wrong parameters (binddn<str>, password<str>)''),
          sent = []\<rparr>
     | Parsed a \<Rightarrow>
         (let self1 = self\<lparr>ld := Some (uri self)\<rparr>;
              sent1 = connect_prelude t self
          in if starts_tls t self \<and> ldap_start_tls_s t \<noteq> LDAP_SUCCESS then
               \<lparr>ret = None, client = self1,
                pyerr = Some (LDAPError, ldap_err2string t (ldap_start_tls_s t)),
                sent = sent1\<rparr>
             else
               (let rc = snd (connect_bind t a);
                    sent2 = sent1 @ [fst (connect_bind t a)]
                in if rc \<noteq> LDAP_SUCCESS then
                     \<lparr>ret = None, client = self1,
                      pyerr = Some (LDAPError, ldap_err2string t rc), sent = sent2\<rparr>
                   else
                     \<lparr>ret = Some Py_None, client = self1\<lparr>connected := 1\<rparr>,
                      pyerr = None, sent = sent2\<rparr>)))"

subsection \<open>LDAPClient_Close\<close>

definition LDAPClient_Close :: "transport \<Rightarrow> LDAPClient \<Rightarrow> PyObject option outcome" where
  "LDAPClient_Close t self =
    (if connected self \<noteq> 0 then
       (let rc = ldap_unbind_ext_s t
        in if rc \<noteq> LDAP_SUCCESS then
             \<lparr>ret = None, client = self,
              pyerr = Some (LDAPError, ldap_err2string t rc), sent = [Call_unbind_ext_s]\<rparr>
           else
             \<lparr>ret = Some Py_None, client = self\<lparr>connected := 0\<rparr>,
              pyerr = None, sent = [Call_unbind_ext_s]\<rparr>)
     else \<lparr>ret = Some Py_None, client = self, pyerr = None, sent = []\<rparr>)"

subsection \<open>LDAPClient_DelEntryStringDN, LDAPClient_DelEntry\<close>

text \<open>\<open>dnstr\<close> is a \<^verbatim>\<open>char *\<close>: \<open>None\<close> is \<^verbatim>\<open>NULL\<close>, \<open>Some ''''\<close> the empty string.\<close>

definition LDAPClient_DelEntryStringDN ::
  "transport \<Rightarrow> LDAPClient \<Rightarrow> string option \<Rightarrow> int outcome" where
  "LDAPClient_DelEntryStringDN t self dnstr =
    (if connected self = 0 then
       \<lparr>ret = - 1, client = self, pyerr = Some not_connected, sent = []\<rparr>
     else
       (case dnstr of
          None \<Rightarrow> \<lparr>ret = 0, client = self, pyerr = None, sent = []\<rparr>
        | Some dn \<Rightarrow>
            (let rc = ldap_delete_ext_s t dn
             in if rc \<noteq> LDAP_SUCCESS then
                  \<lparr>ret = - 1, client = self,
                   pyerr = Some (LDAPError, ldap_err2string t rc),
                   sent = [Call_delete_ext_s dn]\<rparr>
                else \<lparr>ret = 0, client = self, pyerr = None, sent = [Call_delete_ext_s dn]\<rparr>)))"

text \<open>The format \<^verbatim>\<open>"s"\<close> stores a string, never \<^verbatim>\<open>NULL\<close>.\<close>

definition LDAPClient_DelEntry ::
  "transport \<Rightarrow> LDAPClient \<Rightarrow> string parsed \<Rightarrow> PyObject option outcome" where
  "LDAPClient_DelEntry t self args =
    (case args of
       ParseFail m \<Rightarrow>
         \<lparr>ret = None, client = self,
          pyerr = Some (PyExc_AttributeError, ''Wrong parameter.''), sent = []\<rparr>
     | Parsed dnstr \<Rightarrow>
         (let r = LDAPClient_DelEntryStringDN t self (Some dnstr)
          in if ret r \<noteq> 0 then
               \<lparr>ret = None, client = client r, pyerr = pyerr r, sent = sent r\<rparr>
             else \<lparr>ret = Some Py_None, client = client r, pyerr = pyerr r, sent = sent r\<rparr>))"

subsection \<open>searching\<close>

text \<open>
  Modelled from the spec: \<^verbatim>\<open>LDAPEntry_FromLDAPMessage\<close> (ldapentry.c) is not in the sources;
  the spec's entry construction collaborator is "buildFromMessage(message, session)".
  It is the decoding the message carries.
\<close>

definition LDAPEntry_FromLDAPMessage :: "LDAPMessage \<Rightarrow> LDAPClient \<Rightarrow> LDAPEntry" where
  "LDAPEntry_FromLDAPMessage entry self = decoded entry"

text \<open>
  The loop of lines 238 to 268 over the messages of the response, with the list built
  so far. A message that is neither a search entry nor a search reference matches no
  case of the switch. Past the last message the function returns \<^verbatim>\<open>entrylist\<close>
  (line 270), whatever \<^verbatim>\<open>firstonly\<close> is.
\<close>

fun search_messages ::
  "LDAPClient \<Rightarrow> int \<Rightarrow> LDAPMessage list \<Rightarrow> LDAPEntry list \<Rightarrow> PyObject" where
  "search_messages self firstonly [] entrylist = PyList entrylist"
| "search_messages self firstonly (entry # rest) entrylist =
    (if ldap_msgtype entry = LDAP_RES_SEARCH_ENTRY then
       (let entryobj = LDAPEntry_FromLDAPMessage entry self
        in if length (attributes entryobj) = 0 then
             search_messages self firstonly rest entrylist
           else if firstonly = 1 then PyEntry entryobj
           else search_messages self firstonly rest (entrylist @ [entryobj]))
     else if ldap_msgtype entry = LDAP_RES_SEARCH_REFERENCE then
       search_messages self firstonly rest entrylist
     else search_messages self firstonly rest entrylist)"

text \<open>The time limit of lines 209 to 218 and the filter of line 221.\<close>

definition search_timelimit :: "int \<Rightarrow> timeval option" where
  "search_timelimit timeout =
     (if timeout > 0 then Some \<lparr>tv_sec = timeout, tv_usec = 0\<rparr> else None)"

definition search_filter :: "string option \<Rightarrow> string option" where
  "search_filter filterstr =
     (case filterstr of
        None \<Rightarrow> None
      | Some f \<Rightarrow> if length f = 0 then None else Some f)"

text \<open>The request of lines 222 and 223.\<close>

definition search_request_of ::
  "string \<Rightarrow> int \<Rightarrow> string option \<Rightarrow> string list option \<Rightarrow> int \<Rightarrow> int \<Rightarrow> int
     \<Rightarrow> search_request" where
  "search_request_of basestr scope filterstr attrs attrsonly timeout sizelimit =
     \<lparr>req_base = basestr, req_scope = scope, req_filter = search_filter filterstr,
      req_attrs = attrs, req_attrsonly = attrsonly,
      req_timelimit = search_timelimit timeout, req_sizelimit = sizelimit\<rparr>"

definition searching ::
  "transport \<Rightarrow> LDAPClient \<Rightarrow> string \<Rightarrow> int \<Rightarrow> string option \<Rightarrow> string list option
     \<Rightarrow> int \<Rightarrow> int \<Rightarrow> int \<Rightarrow> int \<Rightarrow> PyObject option outcome" where
  "searching t self basestr scope filterstr attrs attrsonly firstonly timeout sizelimit =
    (let req = search_request_of basestr scope filterstr attrs attrsonly timeout sizelimit;
         rc = fst (ldap_search_ext_s t req);
         res = snd (ldap_search_ext_s t req)
     in if rc = LDAP_NO_SUCH_OBJECT then
          \<lparr>ret = None, client = self, pyerr = None, sent = [Call_search_ext_s req]\<rparr>
        else if rc \<noteq> LDAP_SUCCESS then
          \<lparr>ret = None, client = self,
           pyerr = Some (LDAPError, ldap_err2string t rc), sent = [Call_search_ext_s req]\<rparr>
        else
          \<lparr>ret = Some (search_messages self firstonly res []), client = self,
           pyerr = None, sent = [Call_search_ext_s req]\<rparr>)"

subsection \<open>LDAPClient_GetEntry, LDAPClient_GetRootDSE\<close>

definition LDAPClient_GetEntry ::
  "transport \<Rightarrow> LDAPClient \<Rightarrow> string parsed \<Rightarrow> PyObject option outcome" where
  "LDAPClient_GetEntry t self args =
    (if connected self = 0 then
       \<lparr>ret = None, client = self, pyerr = Some not_connected, sent = []\<rparr>
     else
       (case args of
          ParseFail m \<Rightarrow>
            \<lparr>ret = None, client = self,
             pyerr = Some (PyExc_AttributeError, ''Wrong parameter.''), sent = []\<rparr>
        | Parsed dnstr \<Rightarrow>
            (let r = searching t self dnstr LDAP_SCOPE_BASE None None 0 1 0 0
             in case ret r of
                  None \<Rightarrow> r\<lparr>ret := Some Py_None\<rparr>
                | Some entry \<Rightarrow> r)))"

definition rootdse_attrs :: "string list" where
  "rootdse_attrs =
     [''namingContexts'', ''altServer'', ''supportedExtension'', ''supportedControl'',
      ''supportedSASLMechanisms'', ''supportedLDAPVersion'']"

definition LDAPClient_GetRootDSE :: "transport \<Rightarrow> LDAPClient \<Rightarrow> PyObject option outcome" where
  "LDAPClient_GetRootDSE t self =
    (if connected self = 0 then
       \<lparr>ret = None, client = self, pyerr = Some not_connected, sent = []\<rparr>
     else
       searching t self '''' LDAP_SCOPE_BASE (Some ''(objectclass=*)'') (Some rootdse_attrs)
         0 1 0 0)"

subsection \<open>LDAPClient_Search\<close>

text \<open>
  The arguments of the format \<^verbatim>\<open>"si|zOiiO!"\<close>: base and scope, then the optional filter
  (a string or Python's None), attrlist, timeout, sizelimit and attrsonly. \<open>None\<close> is an
  argument the caller left out.
\<close>

record search_args =
  arg_base :: string
  arg_scope :: int
  arg_filter :: "string option"
  arg_attrlist :: "string list option"
  arg_timeout :: "int option"
  arg_sizelimit :: "int option"
  arg_attrsonly :: "bool option"

text \<open>
  The locals of \<^verbatim>\<open>LDAPClient_Search\<close> that reach \<^verbatim>\<open>searching\<close>, as they stand once the
  arguments are parsed.
\<close>

record search_frame =
  loc_basestr :: string
  loc_scope :: int
  loc_filterstr :: "string option"
  loc_attrlist :: "string list option"
  loc_attrsonly :: int
  loc_timeout :: int
  loc_sizelimit :: int

text \<open>
  The locals \<^verbatim>\<open>timeout\<close> and \<^verbatim>\<open>sizelimit\<close> of \<^verbatim>\<open>LDAPClient_Search\<close> are declared without
  an initialiser (line 321: only \<^verbatim>\<open>attrsonly\<close> is set to 0), and the argument parser
  leaves the variable of an omitted optional argument untouched. What they hold then
  is whatever the stack held: \<open>junk_timeout\<close> and \<open>junk_sizelimit\<close>.

  For the format unit \<^verbatim>\<open>O!\<close> the parser is handed \<^verbatim>\<open>&attrsonly\<close>, the address of an int,
  where it stores an object pointer (lines 333 and 334). A given attrsonly argument,
  the last one parsed, therefore writes the pointer over \<^verbatim>\<open>attrsonly\<close> and over what lies
  next to it in the frame. Which local that is, and which bits it gets, is for the
  compiler and the allocator to say: \<open>stray_store\<close> maps the locals before the store and
  the object given to the locals after it, and any of them may have changed,
  \<^verbatim>\<open>attrsonlyo\<close> (read at line 340) included. A pointer local that is overwritten may
  also make the process die when it is read; the model has no such branch.
\<close>

record search_locals =
  junk_timeout :: int
  junk_sizelimit :: int
  stray_store :: "search_frame \<Rightarrow> bool \<Rightarrow> search_frame"

text \<open>
  Modelled from the spec: \<^verbatim>\<open>PyList2StringList\<close> (utils.c) is not in the sources; the
  attribute names are an "optional ordered list of attribute names (absent: all
  attributes)".
\<close>

definition PyList2StringList :: "string list option \<Rightarrow> string list option" where
  "PyList2StringList attrlist = attrlist"

definition LDAPClient_Search ::
  "transport \<Rightarrow> search_locals \<Rightarrow> LDAPClient \<Rightarrow> search_args parsed
     \<Rightarrow> PyObject option outcome" where
  "LDAPClient_Search t locals self args =
    (if connected self = 0 then
       \<lparr>ret = None, client = self, pyerr = Some not_connected, sent = []\<rparr>
     else
       (case args of
          ParseFail m \<Rightarrow>
            \<lparr>ret = None, client = self,
             pyerr = Some (PyExc_AttributeError,
               ''Wrong parameters (base<str>, scope<str> [, filter<str>, attrlist<List>, timeout<int>, attrsonly<bool>]).''),
             sent = []\<rparr>
        | Parsed a \<Rightarrow>
            (let stored =
                   \<lparr>loc_basestr = arg_base a, loc_scope = arg_scope a,
                    loc_filterstr = arg_filter a, loc_attrlist = arg_attrlist a,
                    loc_attrsonly = 0,
                    loc_timeout =
                      (case arg_timeout a of None \<Rightarrow> junk_timeout locals | Some v \<Rightarrow> v),
                    loc_sizelimit =
                      (case arg_sizelimit a of None \<Rightarrow> junk_sizelimit locals | Some v \<Rightarrow> v)\<rparr>;
                 frame =
                   (case arg_attrsonly a of
                      None \<Rightarrow> stored
                    | Some b \<Rightarrow> stray_store locals stored b)
             in searching t self (loc_basestr frame) (loc_scope frame) (loc_filterstr frame)
                  (PyList2StringList (loc_attrlist frame)) (loc_attrsonly frame) 0
                  (loc_timeout frame) (loc_sizelimit frame))))"

subsection \<open>LDAPClient_Whoami\<close>

text \<open>
  \<^verbatim>\<open>PyUnicode_FromString\<close> (Python runtime) reads a C string, the bytes up to the first
  NUL, and decodes it as UTF-8; on a byte sequence that is not well-formed UTF-8 it
  sets a UnicodeDecodeError and returns \<^verbatim>\<open>NULL\<close>. A Python string is kept as its UTF-8
  encoding. \<open>utf8_valid\<close> is the table of well-formed sequences: no overlong form, no
  surrogate, nothing above U+10FFFF.
\<close>

definition c_string :: "string \<Rightarrow> string" where
  "c_string bytes = takeWhile (\<lambda>c. c \<noteq> CHR 0x00) bytes"

definition byte_in :: "nat \<Rightarrow> nat \<Rightarrow> char \<Rightarrow> bool" where
  "byte_in lo hi c = (lo \<le> of_char c \<and> (of_char c :: nat) \<le> hi)"

fun utf8_valid :: "string \<Rightarrow> bool" where
  "utf8_valid [] = True"
| "utf8_valid (c # cs) =
    (if byte_in 0 127 c then utf8_valid cs
     else if byte_in 194 223 c then
       (case cs of c1 # r \<Rightarrow> byte_in 128 191 c1 \<and> utf8_valid r | _ \<Rightarrow> False)
     else if byte_in 224 239 c then
       (case cs of
          c1 # c2 # r \<Rightarrow>
            byte_in (if of_char c = (224::nat) then 160 else 128)
                    (if of_char c = (237::nat) then 159 else 191) c1
            \<and> byte_in 128 191 c2 \<and> utf8_valid r
        | _ \<Rightarrow> False)
     else if byte_in 240 244 c then
       (case cs of
          c1 # c2 # c3 # r \<Rightarrow>
            byte_in (if of_char c = (240::nat) then 144 else 128)
                    (if of_char c = (244::nat) then 143 else 191) c1
            \<and> byte_in 128 191 c2 \<and> byte_in 128 191 c3 \<and> utf8_valid r
        | _ \<Rightarrow> False)
     else False)"

definition PyUnicode_FromString :: "string \<Rightarrow> PyObject option" where
  "PyUnicode_FromString u =
     (if utf8_valid (c_string u) then Some (PyUnicode (c_string u)) else None)"

text \<open>
  \<^verbatim>\<open>ldap_whoami_s\<close> hands back a pointer to a berval, \<^verbatim>\<open>NULL\<close> (\<open>None\<close>) when the response
  carries no value. Line 363 reads \<^verbatim>\<open>authzid->bv_len\<close> without a check: on \<^verbatim>\<open>NULL\<close> the
  process dies, which the model marks as \<open>SIGSEGV\<close> in the error slot. The model does
  not keep the decoder's message.
\<close>

definition LDAPClient_Whoami :: "transport \<Rightarrow> LDAPClient \<Rightarrow> PyObject option outcome" where
  "LDAPClient_Whoami t self =
    (if connected self = 0 then
       \<lparr>ret = None, client = self, pyerr = Some not_connected, sent = []\<rparr>
     else
       (let rc = fst (ldap_whoami_s t)
        in if rc \<noteq> LDAP_SUCCESS then
             \<lparr>ret = None, client = self,
              pyerr = Some (LDAPError, ldap_err2string t rc), sent = [Call_whoami_s]\<rparr>
           else
             (case snd (ldap_whoami_s t) of
                None \<Rightarrow>
                  \<lparr>ret = None, client = self, pyerr = Some (SIGSEGV, []),
                   sent = [Call_whoami_s]\<rparr>
              | Some authzid0 \<Rightarrow>
                  (let authzid1 =
                         (if bv_len authzid0 = 0
                          then authzid0\<lparr>bv_val := ''anonym'', bv_len := 6\<rparr>
                          else authzid0)
                   in case PyUnicode_FromString (bv_val authzid1) of
                        None \<Rightarrow>
                          \<lparr>ret = None, client = self,
                           pyerr = Some (PyExc_UnicodeDecodeError, []),
                           sent = [Call_whoami_s]\<rparr>
                      | Some identity \<Rightarrow>
                          \<lparr>ret = Some identity, client = self, pyerr = None,
                           sent = [Call_whoami_s]\<rparr>))))"

subsection \<open>An example directory\<close>

text \<open>
  A small server to run the functions on: the base \<open>dc=example,dc=com\<close> answers with
  five messages (an entry, a continuation reference, an entry without attributes, a
  second entry and the closing search result), \<open>cn=hidden,dc=example,dc=com\<close> with one
  entry without attributes, \<open>dc=broken\<close> with an operations error and every other base
  with "no such object". A simple bind needs the password \<open>secret\<close>.
\<close>

definition alice :: LDAPEntry where
  "alice = \<lparr>entry_dn = ''cn=alice,dc=example,dc=com'', attributes = [''cn'', ''sn'']\<rparr>"

definition bob :: LDAPEntry where
  "bob = \<lparr>entry_dn = ''cn=bob,dc=example,dc=com'', attributes = [''cn'']\<rparr>"

definition hidden :: LDAPEntry where
  "hidden = \<lparr>entry_dn = ''cn=hidden,dc=example,dc=com'', attributes = []\<rparr>"

definition example_response :: "LDAPMessage list" where
  "example_response =
     [\<lparr>ldap_msgtype = 100, decoded = alice\<rparr>,
      \<lparr>ldap_msgtype = 115, decoded = hidden\<rparr>,
      \<lparr>ldap_msgtype = 100, decoded = hidden\<rparr>,
      \<lparr>ldap_msgtype = 100, decoded = bob\<rparr>,
      \<lparr>ldap_msgtype = 101, decoded = hidden\<rparr>]"

definition example_search :: "search_request \<Rightarrow> int \<times> LDAPMessage list" where
  "example_search req =
     (if req_base req = ''dc=example,dc=com'' then (0, example_response)
      else if req_base req = ''cn=hidden,dc=example,dc=com''
        then (0, [\<lparr>ldap_msgtype = 100, decoded = hidden\<rparr>,
                  \<lparr>ldap_msgtype = 101, decoded = hidden\<rparr>])
      else if req_base req = ''dc=broken'' then (1, [])
      else (32, []))"

definition example_err2string :: "int \<Rightarrow> string" where
  "example_err2string rc =
     (if rc = 32 then ''No such object''
      else if rc = 49 then ''Invalid credentials''
      else ''Operations error'')"

definition example_server :: transport where
  "example_server =
     \<lparr>ldap_url_parse = (\<lambda>u. (0, \<lparr>lud_scheme = takeWhile (\<lambda>c. c \<noteq> CHR '':'') u\<rparr>)),
      lud_err2string = (\<lambda>rc. ''Bad URL''),
      ldap_err2string = example_err2string,
      ldap_tls_inplace = 0,
      ldap_start_tls_s = 0,
      ldap_sasl_interactive_bind_s = (\<lambda>dn m d. if sasl_passwd d = ''secret'' then 0 else 49),
      ldap_sasl_bind_s = (\<lambda>dn pw. if bv_val pw = ''secret'' then 0 else 49),
      ldap_unbind_ext_s = 0,
      ldap_delete_ext_s = (\<lambda>dn. if dn = ''cn=bob,dc=example,dc=com'' then 0 else 32),
      ldap_search_ext_s = example_search,
      ldap_whoami_s = (0, Some \<lparr>bv_len = 0, bv_val = []\<rparr>)\<rparr>"

definition fresh_session :: LDAPClient where
  "fresh_session = \<lparr>uri = ''ldap://localhost:389/'', ld = None, connected = 0, tls = 0\<rparr>"

definition bound_session :: LDAPClient where
  "bound_session =
     \<lparr>uri = ''ldap://localhost:389/'', ld = Some ''ldap://localhost:389/'',
      connected = 1, tls = 0\<rparr>"

definition example_locals :: search_locals where
  "example_locals =
     \<lparr>junk_timeout = 7, junk_sizelimit = 3,
      stray_store = (\<lambda>f b. f\<lparr>loc_attrsonly := 5, loc_basestr := ''dc=garbage''\<rparr>)\<rparr>"

text \<open>A search call that gives base and scope only.\<close>

definition search_call :: "string \<Rightarrow> search_args" where
  "search_call b =
     \<lparr>arg_base = b, arg_scope = 2, arg_filter = None, arg_attrlist = None,
      arg_timeout = None, arg_sizelimit = None, arg_attrsonly = None\<rparr>"

definition simple_bind :: "string \<Rightarrow> string \<Rightarrow> connect_args" where
  "simple_bind dn pw =
     \<lparr>binddn = Some dn, pswstr = Some pw, mech = None, authzid = None, realm = None,
      authcid = None\<rparr>"

section \<open>Properties\<close>

subsection \<open>Helper facts\<close>

lemmas ldap_consts = LDAP_SUCCESS_def LDAP_NO_SUCH_OBJECT_def LDAP_RES_SEARCH_ENTRY_def
  LDAP_RES_SEARCH_REFERENCE_def LDAP_SCOPE_BASE_def
lemmas example_defs = example_server_def example_search_def example_response_def example_err2string_def
  alice_def bob_def hidden_def fresh_session_def bound_session_def example_locals_def
  search_call_def simple_bind_def


lemma searching_sent:
  "sent (searching t self b sc f at ao fo tmo sl) =
     [Call_search_ext_s (search_request_of b sc f at ao tmo sl)]"
  by (simp add: searching_def Let_def)

lemma searching_client: "client (searching t self b sc f at ao fo tmo sl) = self"
  by (simp add: searching_def Let_def)


lemma searching_no_such_object:
  "fst (ldap_search_ext_s t (search_request_of b sc f at ao tmo sl)) = LDAP_NO_SUCH_OBJECT \<Longrightarrow>
   searching t self b sc f at ao fo tmo sl =
     \<lparr>ret = None, client = self, pyerr = None,
      sent = [Call_search_ext_s (search_request_of b sc f at ao tmo sl)]\<rparr>"
  by (simp add: searching_def Let_def ldap_consts)

lemma Search_connected:
  "connected self \<noteq> 0 \<Longrightarrow> arg_attrsonly a = None \<Longrightarrow>
   LDAPClient_Search t locals self (Parsed a) =
     searching t self (arg_base a) (arg_scope a) (arg_filter a)
       (PyList2StringList (arg_attrlist a)) 0 0
       (case arg_timeout a of None \<Rightarrow> junk_timeout locals | Some v \<Rightarrow> v)
       (case arg_sizelimit a of None \<Rightarrow> junk_sizelimit locals | Some v \<Rightarrow> v)"
  by (simp add: LDAPClient_Search_def Let_def)

subsection \<open>Search in collect-all mode\<close>



subsection \<open>First-only mode and get_entry\<close>

text \<open>
  In first-only mode the loop returns the first decoded entry that has an attribute.
  When no message yields one it runs to the end and returns the list built so far,
  which is still empty: line 270 returns \<^verbatim>\<open>entrylist\<close> in both modes.
\<close>

lemma search_messages_first:
  "search_messages self 1 msgs acc =
     (case filter (\<lambda>e. attributes e \<noteq> [])
             (map (\<lambda>m. LDAPEntry_FromLDAPMessage m self)
               (filter (\<lambda>m. ldap_msgtype m = LDAP_RES_SEARCH_ENTRY) msgs)) of
        [] \<Rightarrow> PyList acc
      | e # es \<Rightarrow> PyEntry e)"
  by (induction msgs arbitrary: acc) (simp_all add: Let_def)

lemma GetEntry_connected:
  "connected self \<noteq> 0 \<Longrightarrow>
   LDAPClient_GetEntry t self (Parsed dn) =
     (let r = searching t self dn LDAP_SCOPE_BASE None None 0 1 0 0
      in case ret r of None \<Rightarrow> r\<lparr>ret := Some Py_None\<rparr> | Some entry \<Rightarrow> r)"
  by (simp add: LDAPClient_GetEntry_def)

lemma GetEntry_sent:
  "connected self \<noteq> 0 \<Longrightarrow>
   sent (LDAPClient_GetEntry t self (Parsed dn)) =
     [Call_search_ext_s \<lparr>req_base = dn, req_scope = LDAP_SCOPE_BASE, req_filter = None,
        req_attrs = None, req_attrsonly = 0, req_timelimit = None, req_sizelimit = 0\<rparr>]"
  by (simp add: LDAPClient_GetEntry_def searching_def search_request_of_def
      search_filter_def search_timelimit_def Let_def split: option.splits)

lemma GetEntry_no_such_object:
  assumes "connected self \<noteq> 0"
    and "fst (ldap_search_ext_s t \<lparr>req_base = dn, req_scope = LDAP_SCOPE_BASE,
        req_filter = None, req_attrs = None, req_attrsonly = 0, req_timelimit = None,
        req_sizelimit = 0\<rparr>) = LDAP_NO_SUCH_OBJECT"
  shows "ret (LDAPClient_GetEntry t self (Parsed dn)) = Some Py_None
       \<and> pyerr (LDAPClient_GetEntry t self (Parsed dn)) = None"
  using assms
  by (simp add: LDAPClient_GetEntry_def searching_def search_request_of_def
      search_filter_def search_timelimit_def Let_def)

lemma GetEntry_success:
  assumes "connected self \<noteq> 0"
    and "ldap_search_ext_s t \<lparr>req_base = dn, req_scope = LDAP_SCOPE_BASE,
        req_filter = None, req_attrs = None, req_attrsonly = 0, req_timelimit = None,
        req_sizelimit = 0\<rparr> = (LDAP_SUCCESS, res)"
  shows "ret (LDAPClient_GetEntry t self (Parsed dn)) =
           Some (case filter (\<lambda>e. attributes e \<noteq> [])
                        (map (\<lambda>m. LDAPEntry_FromLDAPMessage m self)
                          (filter (\<lambda>m. ldap_msgtype m = LDAP_RES_SEARCH_ENTRY) res)) of
                   [] \<Rightarrow> PyList []
                 | e # es \<Rightarrow> PyEntry e)
       \<and> pyerr (LDAPClient_GetEntry t self (Parsed dn)) = None"
  using assms
  by (simp add: LDAPClient_GetEntry_def searching_def search_request_of_def
      search_filter_def search_timelimit_def Let_def ldap_consts search_messages_first)

subsection \<open>The status "no such object"\<close>

text \<open>
  C2: the claim has a search in collect-all mode return an empty result, and no failure,
  when the server reports "no such object". \<^verbatim>\<open>searching\<close> returns \<^verbatim>\<open>NULL\<close> there without
  setting an error (lines 225 to 229), and \<^verbatim>\<open>LDAPClient_Search\<close> returns what \<^verbatim>\<open>searching\<close>
  returned (lines 344 and 345), where \<^verbatim>\<open>LDAPClient_GetEntry\<close> turns the same \<^verbatim>\<open>NULL\<close> into
  \<^verbatim>\<open>Py_None\<close> (line 291). On the example server the base \<open>dc=missing\<close> is answered with
  status 32; the search method returns \<^verbatim>\<open>NULL\<close> with no exception set, which is not the
  empty list (and which the interpreter reports as a SystemError).
\<close>

theorem search_no_such_object_returns_null:
  "ldap_search_ext_s example_server
      \<lparr>req_base = ''dc=missing'', req_scope = 2, req_filter = None, req_attrs = None,
       req_attrsonly = 0, req_timelimit = None, req_sizelimit = 0\<rparr> = (LDAP_NO_SUCH_OBJECT, [])
   \<and> LDAPClient_Search example_server example_locals bound_session
        (Parsed \<lparr>arg_base = ''dc=missing'', arg_scope = 2, arg_filter = None,
           arg_attrlist = None, arg_timeout = Some 0, arg_sizelimit = Some 0,
           arg_attrsonly = None\<rparr>) =
      \<lparr>ret = None, client = bound_session, pyerr = None,
       sent = [Call_search_ext_s
          \<lparr>req_base = ''dc=missing'', req_scope = 2, req_filter = None, req_attrs = None,
           req_attrsonly = 0, req_timelimit = None, req_sizelimit = 0\<rparr>]\<rparr>"
  by (simp add: example_defs ldap_consts LDAPClient_Search_def searching_def search_request_of_def
      search_filter_def search_timelimit_def PyList2StringList_def Let_def)

text \<open>
  C7: the claim has get_entry return None when the response yields no surviving entry.
  On the example server the base search on \<open>cn=hidden,dc=example,dc=com\<close> succeeds with one
  entry that has no attributes; \<^verbatim>\<open>searching\<close> in first-only mode skips it, leaves the loop
  and returns the empty \<^verbatim>\<open>entrylist\<close>, which is not \<^verbatim>\<open>NULL\<close>, so \<^verbatim>\<open>LDAPClient_GetEntry\<close>
  returns an empty list where its documentation promises an LDAPEntry or None.
\<close>

theorem get_entry_no_survivor_returns_list:
  "ldap_search_ext_s example_server
      \<lparr>req_base = ''cn=hidden,dc=example,dc=com'', req_scope = LDAP_SCOPE_BASE,
       req_filter = None, req_attrs = None, req_attrsonly = 0, req_timelimit = None,
       req_sizelimit = 0\<rparr> =
      (LDAP_SUCCESS, [\<lparr>ldap_msgtype = 100, decoded = hidden\<rparr>,
                      \<lparr>ldap_msgtype = 101, decoded = hidden\<rparr>])
   \<and> attributes hidden = []
   \<and> LDAPClient_GetEntry example_server bound_session
        (Parsed ''cn=hidden,dc=example,dc=com'') =
      \<lparr>ret = Some (PyList []), client = bound_session, pyerr = None,
       sent = [Call_search_ext_s
          \<lparr>req_base = ''cn=hidden,dc=example,dc=com'', req_scope = LDAP_SCOPE_BASE,
           req_filter = None, req_attrs = None, req_attrsonly = 0, req_timelimit = None,
           req_sizelimit = 0\<rparr>]\<rparr>"
  by (simp add: example_defs ldap_consts LDAPClient_GetEntry_def searching_def
      search_request_of_def search_filter_def search_timelimit_def
      LDAPEntry_FromLDAPMessage_def Let_def)

subsection \<open>The request of a search\<close>

text \<open>
  C9: the claim has an absent timeout and an absent sizelimit mean "no limit" in the
  request. \<^verbatim>\<open>LDAPClient_Search\<close> declares \<^verbatim>\<open>int timeout, sizelimit, attrsonly = 0;\<close> and the
  parser does not touch the variable of an omitted optional argument, so a search
  called with base and scope only passes on what the two locals held before: with 7
  and 3 on the stack the request carries a time limit of 7 seconds and a size limit
  of 3.
\<close>

theorem search_omitted_limits_read_uninitialised:
  "sent (LDAPClient_Search example_server
           \<lparr>junk_timeout = 7, junk_sizelimit = 3, stray_store = (\<lambda>f b. f)\<rparr> bound_session
           (Parsed \<lparr>arg_base = ''dc=example,dc=com'', arg_scope = 2, arg_filter = None,
              arg_attrlist = None, arg_timeout = None, arg_sizelimit = None,
              arg_attrsonly = None\<rparr>)) =
     [Call_search_ext_s
        \<lparr>req_base = ''dc=example,dc=com'', req_scope = 2, req_filter = None,
         req_attrs = None, req_attrsonly = 0,
         req_timelimit = Some \<lparr>tv_sec = 7, tv_usec = 0\<rparr>, req_sizelimit = 3\<rparr>]"
  by (simp add: example_defs LDAPClient_Search_def searching_def search_request_of_def
      search_filter_def search_timelimit_def PyList2StringList_def Let_def)

text \<open>
  The rest of C9 holds of \<^verbatim>\<open>searching\<close>: an empty or absent filter is sent as absent, a
  time limit is sent exactly when the timeout is positive, and the size limit is sent
  as given. \<open>Search_limits_sent\<close> is the request \<^verbatim>\<open>LDAPClient_Search\<close> issues for a call
  that leaves out attrsonly.
\<close>

lemma search_request_normalised:
  "req_filter (search_request_of b sc (Some []) at ao tmo sl) = None
   \<and> req_filter (search_request_of b sc None at ao tmo sl) = None
   \<and> (f \<noteq> [] \<longrightarrow> req_filter (search_request_of b sc (Some f) at ao tmo sl) = Some f)
   \<and> (0 < tmo \<longrightarrow> req_timelimit (search_request_of b sc fl at ao tmo sl)
          = Some \<lparr>tv_sec = tmo, tv_usec = 0\<rparr>)
   \<and> (tmo \<le> 0 \<longrightarrow> req_timelimit (search_request_of b sc fl at ao tmo sl) = None)
   \<and> req_sizelimit (search_request_of b sc fl at ao tmo sl) = sl"
  by (simp add: search_request_of_def search_filter_def search_timelimit_def)

lemma Search_limits_sent:
  assumes "connected self \<noteq> 0" and "arg_attrsonly a = None"
  shows "sent (LDAPClient_Search t locals self (Parsed a)) =
     [Call_search_ext_s
        \<lparr>req_base = arg_base a, req_scope = arg_scope a,
         req_filter = search_filter (arg_filter a),
         req_attrs = PyList2StringList (arg_attrlist a),
         req_attrsonly = 0,
         req_timelimit = search_timelimit
           (case arg_timeout a of None \<Rightarrow> junk_timeout locals | Some v \<Rightarrow> v),
         req_sizelimit = (case arg_sizelimit a of None \<Rightarrow> junk_sizelimit locals | Some v \<Rightarrow> v)\<rparr>]"
  using assms by (simp add: Search_connected searching_sent search_request_of_def)

subsection \<open>Deleting an entry\<close>

text \<open>
  C3, as stated, fails: an empty DN string is not \<^verbatim>\<open>NULL\<close>, so the guard of line 163 lets
  it through and \<^verbatim>\<open>ldap_delete_ext_s\<close> is called with it. On the example server the call
  is answered with status 32 and the delete ends in an error.
\<close>

theorem delete_empty_dn_is_sent:
  "connected bound_session = 1
   \<and> LDAPClient_DelEntryStringDN example_server bound_session (Some []) =
       \<lparr>ret = - 1, client = bound_session, pyerr = Some (LDAPError, ''No such object''),
        sent = [Call_delete_ext_s []]\<rparr>"
  by (simp add: example_defs ldap_consts LDAPClient_DelEntryStringDN_def)

text \<open>
  C3, amended: on a connected session a delete with an absent DN (\<^verbatim>\<open>NULL\<close>) returns success
  and issues no call. Every DN string, the empty one included, is passed to
  \<^verbatim>\<open>ldap_delete_ext_s\<close> once; a status other than success surfaces as an \<open>LDAPError\<close> with
  the text of the status, and success returns success. The method \<^verbatim>\<open>LDAPClient_DelEntry\<close>
  always has a string.
\<close>

theorem delete_absent_dn_is_noop:
  assumes "connected self \<noteq> 0"
  shows "LDAPClient_DelEntryStringDN t self None =
           \<lparr>ret = 0, client = self, pyerr = None, sent = []\<rparr>
       \<and> sent (LDAPClient_DelEntryStringDN t self (Some dn)) = [Call_delete_ext_s dn]
       \<and> sent (LDAPClient_DelEntry t self (Parsed dn)) = [Call_delete_ext_s dn]
       \<and> (ldap_delete_ext_s t dn \<noteq> LDAP_SUCCESS \<longrightarrow>
            ret (LDAPClient_DelEntryStringDN t self (Some dn)) = - 1
          \<and> pyerr (LDAPClient_DelEntryStringDN t self (Some dn)) =
              Some (LDAPError, ldap_err2string t (ldap_delete_ext_s t dn))
          \<and> ret (LDAPClient_DelEntry t self (Parsed dn)) = None
          \<and> pyerr (LDAPClient_DelEntry t self (Parsed dn)) =
              Some (LDAPError, ldap_err2string t (ldap_delete_ext_s t dn)))
       \<and> (ldap_delete_ext_s t dn = LDAP_SUCCESS \<longrightarrow>
            ret (LDAPClient_DelEntryStringDN t self (Some dn)) = 0
          \<and> pyerr (LDAPClient_DelEntryStringDN t self (Some dn)) = None
          \<and> ret (LDAPClient_DelEntry t self (Parsed dn)) = Some Py_None
          \<and> pyerr (LDAPClient_DelEntry t self (Parsed dn)) = None)"
  using assms
  by (simp add: LDAPClient_DelEntryStringDN_def LDAPClient_DelEntry_def Let_def)

theorem delete_absent_dn_is_noop_witness:
  "LDAPClient_DelEntryStringDN example_server bound_session None =
           \<lparr>ret = 0, client = bound_session, pyerr = None, sent = []\<rparr>
   \<and> LDAPClient_DelEntryStringDN example_server bound_session (Some ''cn=alice,dc=example,dc=com'') =
       \<lparr>ret = - 1, client = bound_session, pyerr = Some (LDAPError, ''No such object''),
        sent = [Call_delete_ext_s ''cn=alice,dc=example,dc=com'']\<rparr>
   \<and> LDAPClient_DelEntryStringDN example_server bound_session (Some ''cn=bob,dc=example,dc=com'') =
       \<lparr>ret = 0, client = bound_session, pyerr = None,
        sent = [Call_delete_ext_s ''cn=bob,dc=example,dc=com'']\<rparr>"
  using delete_absent_dn_is_noop [of bound_session example_server "''cn=alice,dc=example,dc=com''"]
    delete_absent_dn_is_noop [of bound_session example_server "''cn=bob,dc=example,dc=com''"]
  by (simp add: example_defs ldap_consts LDAPClient_DelEntryStringDN_def)

subsection \<open>Operations on a session that is not connected\<close>

text \<open>
  C4: on a session with \<open>connected = 0\<close>, delete, get_entry, get_rootDSE, search and
  whoami fail with the exception \<open>LDAPExc_NotConnected\<close>, issue no call to the transport
  and leave the session as it was; get_entry and search check the flag before they
  parse their arguments. Close takes its no-op path there: it never reaches the unbind.
\<close>

theorem unconnected_operations_fail:
  assumes "connected self = 0"
  shows "LDAPClient_DelEntryStringDN t self dnstr =
           \<lparr>ret = - 1, client = self, pyerr = Some not_connected, sent = []\<rparr>
       \<and> LDAPClient_DelEntry t self (Parsed dn) =
           \<lparr>ret = None, client = self, pyerr = Some not_connected, sent = []\<rparr>
       \<and> LDAPClient_GetEntry t self gargs =
           \<lparr>ret = None, client = self, pyerr = Some not_connected, sent = []\<rparr>
       \<and> LDAPClient_GetRootDSE t self =
           \<lparr>ret = None, client = self, pyerr = Some not_connected, sent = []\<rparr>
       \<and> LDAPClient_Search t locals self sargs =
           \<lparr>ret = None, client = self, pyerr = Some not_connected, sent = []\<rparr>
       \<and> LDAPClient_Whoami t self =
           \<lparr>ret = None, client = self, pyerr = Some not_connected, sent = []\<rparr>
       \<and> LDAPClient_Close t self =
           \<lparr>ret = Some Py_None, client = self, pyerr = None, sent = []\<rparr>
       \<and> fst not_connected = LDAPExc_NotConnected"
  using assms
  by (simp add: LDAPClient_DelEntryStringDN_def LDAPClient_DelEntry_def
      LDAPClient_GetEntry_def LDAPClient_GetRootDSE_def LDAPClient_Search_def
      LDAPClient_Whoami_def LDAPClient_Close_def not_connected_def)

theorem unconnected_operations_fail_witness:
  "connected fresh_session = 0
   \<and> LDAPClient_Whoami example_server fresh_session =
       \<lparr>ret = None, client = fresh_session,
        pyerr = Some (LDAPExc_NotConnected, ''Client has to connect to the server first.''),
        sent = []\<rparr>
   \<and> LDAPClient_Search example_server example_locals fresh_session
        (Parsed (search_call ''dc=example,dc=com'')) =
       \<lparr>ret = None, client = fresh_session,
        pyerr = Some (LDAPExc_NotConnected, ''Client has to connect to the server first.''),
        sent = []\<rparr>"
proof -
  have h: "connected fresh_session = 0"
    by (simp add: fresh_session_def)
  show ?thesis
    using h unconnected_operations_fail [OF h, of example_server None
        "''cn=bob,dc=example,dc=com''" "Parsed ''cn=bob,dc=example,dc=com''"
        example_locals "Parsed (search_call ''dc=example,dc=com'')"]
    by (simp add: not_connected_def)
qed

subsection \<open>Construction\<close>

text \<open>
  C5: when the URI of the construction (the argument, or the default URI) parses and
  its scheme is \<open>ldaps\<close>, the \<open>tls\<close> flag of the session is 0 afterwards, whatever \<open>tls\<close>
  argument was given.
\<close>

theorem ldaps_scheme_forces_tls_off:
  assumes "uristr = (case arg_uri a of None \<Rightarrow> ''ldap://localhost:389/'' | Some u \<Rightarrow> u)"
    and "fst (ldap_url_parse t uristr) = 0"
    and "lud_scheme (snd (ldap_url_parse t uristr)) = ''ldaps''"
  shows "ret (LDAPClient_init t self (Parsed a)) = 0
       \<and> pyerr (LDAPClient_init t self (Parsed a)) = None
       \<and> uri (client (LDAPClient_init t self (Parsed a))) = uristr
       \<and> tls (client (LDAPClient_init t self (Parsed a))) = 0"
  using assms by (simp add: LDAPClient_init_def Let_def)

theorem ldaps_scheme_forces_tls_off_witness:
  "tls (client (LDAPClient_init example_server LDAPClient_new
          (Parsed \<lparr>arg_uri = Some ''ldaps://host/'', arg_tls = Some True\<rparr>))) = 0
   \<and> lud_scheme (snd (ldap_url_parse example_server ''ldaps://host/'')) = ''ldaps''"
  using ldaps_scheme_forces_tls_off [of "''ldaps://host/''"
      "\<lparr>arg_uri = Some ''ldaps://host/'', arg_tls = Some True\<rparr>" example_server LDAPClient_new]
  by (simp add: example_defs)

text \<open>With any other scheme the flag is the one requested.\<close>

lemma init_other_scheme_keeps_tls:
  assumes "uristr = (case arg_uri a of None \<Rightarrow> ''ldap://localhost:389/'' | Some u \<Rightarrow> u)"
    and "fst (ldap_url_parse t uristr) = 0"
    and "lud_scheme (snd (ldap_url_parse t uristr)) \<noteq> ''ldaps''"
  shows "tls (client (LDAPClient_init t self (Parsed a))) =
           (case arg_tls a of None \<Rightarrow> 0 | Some b \<Rightarrow> if b then 1 else 0)"
  using assms by (simp add: LDAPClient_init_def Let_def PyObject_IsTrue_def split: option.splits)

subsection \<open>Who am I\<close>

text \<open>
  C8: the claim has whoami return the string \<open>anonym\<close> when the identity response is
  empty. \<^verbatim>\<open>ldap_whoami_s\<close> reports an empty response in two ways: a berval of length 0,
  which lines 363 to 366 turn into \<open>anonym\<close>, and no berval at all (\<^verbatim>\<open>authzid\<close> is \<^verbatim>\<open>NULL\<close>,
  the response carries no value). The second is read at line 363 without a check:
  on a connected session, with status success and no berval, whoami dereferences
  \<^verbatim>\<open>NULL\<close> and returns nothing.
\<close>

theorem whoami_without_identity_value_dereferences_null:
  "connected bound_session = 1
   \<and> LDAPClient_Whoami (example_server\<lparr>ldap_whoami_s := (LDAP_SUCCESS, None)\<rparr>)
        bound_session =
       \<lparr>ret = None, client = bound_session, pyerr = Some (SIGSEGV, []),
        sent = [Call_whoami_s]\<rparr>"
  by (simp add: example_defs ldap_consts LDAPClient_Whoami_def)

text \<open>
  The rest of C8 holds where \<^verbatim>\<open>ldap_whoami_s\<close> hands back a berval: length 0 gives
  \<open>anonym\<close>; otherwise the identity is returned as Python reads it (the bytes up to a
  NUL, which must be well-formed UTF-8, else a UnicodeDecodeError is set); a status
  other than success sets an \<open>LDAPError\<close> with the text of the status.
\<close>

lemma Whoami_identity_present:
  assumes "connected self \<noteq> 0"
    and "ldap_whoami_s t = (LDAP_SUCCESS, Some idv)"
  shows "(bv_len idv = 0 \<longrightarrow>
            ret (LDAPClient_Whoami t self) = Some (PyUnicode ''anonym'')
          \<and> pyerr (LDAPClient_Whoami t self) = None)
       \<and> (bv_len idv \<noteq> 0 \<and> utf8_valid (c_string (bv_val idv)) \<longrightarrow>
            ret (LDAPClient_Whoami t self) = Some (PyUnicode (c_string (bv_val idv)))
          \<and> pyerr (LDAPClient_Whoami t self) = None)
       \<and> (bv_len idv \<noteq> 0 \<and> \<not> utf8_valid (c_string (bv_val idv)) \<longrightarrow>
            ret (LDAPClient_Whoami t self) = None
          \<and> pyerr (LDAPClient_Whoami t self) = Some (PyExc_UnicodeDecodeError, []))
       \<and> sent (LDAPClient_Whoami t self) = [Call_whoami_s]"
  using assms
  by (simp add: LDAPClient_Whoami_def PyUnicode_FromString_def c_string_def byte_in_def
      ldap_consts Let_def)

lemma Whoami_failure:
  assumes "connected self \<noteq> 0"
    and "fst (ldap_whoami_s t) \<noteq> LDAP_SUCCESS"
  shows "LDAPClient_Whoami t self =
           \<lparr>ret = None, client = self,
            pyerr = Some (LDAPError, ldap_err2string t (fst (ldap_whoami_s t))),
            sent = [Call_whoami_s]\<rparr>"
  using assms by (simp add: LDAPClient_Whoami_def Let_def)

lemma Whoami_examples:
  "ret (LDAPClient_Whoami example_server bound_session) = Some (PyUnicode ''anonym'')
   \<and> ret (LDAPClient_Whoami
        (example_server\<lparr>ldap_whoami_s :=
           (0, Some \<lparr>bv_len = 11, bv_val = ''dn:cn=admin''\<rparr>)\<rparr>)
        bound_session) = Some (PyUnicode ''dn:cn=admin'')
   \<and> LDAPClient_Whoami
        (example_server\<lparr>ldap_whoami_s := (0, Some \<lparr>bv_len = 1, bv_val = [CHR 0xFF]\<rparr>)\<rparr>)
        bound_session =
       \<lparr>ret = None, client = bound_session, pyerr = Some (PyExc_UnicodeDecodeError, []),
        sent = [Call_whoami_s]\<rparr>"
  by (simp add: example_defs ldap_consts LDAPClient_Whoami_def PyUnicode_FromString_def
      c_string_def byte_in_def Let_def)

subsection \<open>Connecting\<close>

text \<open>The status of the bind step, for the simple bind and for the SASL bind.\<close>

lemma connect_bind_simple:
  "mech a = None \<Longrightarrow>
   connect_bind t a =
     (Call_sasl_bind_s (binddn a)
        \<lparr>bv_len = (case pswstr a of None \<Rightarrow> 0 | Some s \<Rightarrow> length s),
         bv_val = (case pswstr a of None \<Rightarrow> [] | Some s \<Rightarrow> s)\<rparr>,
      ldap_sasl_bind_s t (binddn a)
        \<lparr>bv_len = (case pswstr a of None \<Rightarrow> 0 | Some s \<Rightarrow> length s),
         bv_val = (case pswstr a of None \<Rightarrow> [] | Some s \<Rightarrow> s)\<rparr>)"
  by (simp add: connect_bind_def Let_def)

lemma connect_bind_sasl:
  "mech a = Some m \<Longrightarrow>
   connect_bind t a =
     (Call_sasl_interactive_bind_s (binddn a) m
        (create_sasl_defaults m (realm a) (authcid a)
           (case pswstr a of None \<Rightarrow> [] | Some s \<Rightarrow> s) (authzid a)),
      ldap_sasl_interactive_bind_s t (binddn a) m
        (create_sasl_defaults m (realm a) (authcid a)
           (case pswstr a of None \<Rightarrow> [] | Some s \<Rightarrow> s) (authzid a)))"
  by (simp add: connect_bind_def Let_def)




subsection \<open>What the operations change of the session\<close>

text \<open>
  C10: search, get_entry, get_rootDSE, delete and whoami return the session as they
  found it, whether they succeed or fail. Connect and close leave \<open>uri\<close> and \<open>tls\<close> alone;
  connect changes \<open>connected\<close> only when it succeeds, to 1, and close changes it only
  when the unbind succeeds, to 0.
\<close>

theorem operations_frame:
  "client (LDAPClient_Search t locals self sargs) = self
   \<and> client (LDAPClient_GetEntry t self gargs) = self
   \<and> client (LDAPClient_GetRootDSE t self) = self
   \<and> client (LDAPClient_DelEntry t self dargs) = self
   \<and> client (LDAPClient_DelEntryStringDN t self dnstr) = self
   \<and> client (LDAPClient_Whoami t self) = self
   \<and> uri (client (LDAPClient_Connect t self cargs)) = uri self
   \<and> tls (client (LDAPClient_Connect t self cargs)) = tls self
   \<and> (connected (client (LDAPClient_Connect t self cargs)) \<noteq> connected self \<longrightarrow>
        ret (LDAPClient_Connect t self cargs) = Some Py_None
      \<and> pyerr (LDAPClient_Connect t self cargs) = None
      \<and> connected (client (LDAPClient_Connect t self cargs)) = 1)
   \<and> (ret (LDAPClient_Connect t self cargs) = Some Py_None \<longrightarrow>
        connected (client (LDAPClient_Connect t self cargs)) = 1)
   \<and> uri (client (LDAPClient_Close t self)) = uri self
   \<and> tls (client (LDAPClient_Close t self)) = tls self
   \<and> ld (client (LDAPClient_Close t self)) = ld self
   \<and> (connected (client (LDAPClient_Close t self)) \<noteq> connected self \<longrightarrow>
        ldap_unbind_ext_s t = LDAP_SUCCESS
      \<and> ret (LDAPClient_Close t self) = Some Py_None
      \<and> connected (client (LDAPClient_Close t self)) = 0)
   \<and> (connected self \<noteq> 0 \<and> ldap_unbind_ext_s t = LDAP_SUCCESS \<longrightarrow>
        connected (client (LDAPClient_Close t self)) = 0)"
proof -
  have search: "client (LDAPClient_Search t locals self sargs) = self"
    by (simp add: LDAPClient_Search_def searching_client Let_def split: parsed.splits)
  have getentry: "client (LDAPClient_GetEntry t self gargs) = self"
    by (simp add: LDAPClient_GetEntry_def searching_client Let_def
        split: parsed.splits option.splits)
  have rootdse: "client (LDAPClient_GetRootDSE t self) = self"
    by (simp add: LDAPClient_GetRootDSE_def searching_client)
  have delstr: "client (LDAPClient_DelEntryStringDN t self d) = self" for d
    by (simp add: LDAPClient_DelEntryStringDN_def Let_def split: option.splits)
  have del: "client (LDAPClient_DelEntry t self dargs) = self"
    by (simp add: LDAPClient_DelEntry_def delstr Let_def split: parsed.splits)
  have whoami: "client (LDAPClient_Whoami t self) = self"
    by (simp add: LDAPClient_Whoami_def Let_def split: option.splits)
  have conn: "uri (client (LDAPClient_Connect t self cargs)) = uri self
      \<and> tls (client (LDAPClient_Connect t self cargs)) = tls self
      \<and> (connected (client (LDAPClient_Connect t self cargs)) \<noteq> connected self \<longrightarrow>
          ret (LDAPClient_Connect t self cargs) = Some Py_None
        \<and> pyerr (LDAPClient_Connect t self cargs) = None
        \<and> connected (client (LDAPClient_Connect t self cargs)) = 1)
      \<and> (ret (LDAPClient_Connect t self cargs) = Some Py_None \<longrightarrow>
          connected (client (LDAPClient_Connect t self cargs)) = 1)"
    by (cases cargs) (simp_all add: LDAPClient_Connect_def Let_def)
  have close: "uri (client (LDAPClient_Close t self)) = uri self
      \<and> tls (client (LDAPClient_Close t self)) = tls self
      \<and> ld (client (LDAPClient_Close t self)) = ld self
      \<and> (connected (client (LDAPClient_Close t self)) \<noteq> connected self \<longrightarrow>
          ldap_unbind_ext_s t = LDAP_SUCCESS
        \<and> ret (LDAPClient_Close t self) = Some Py_None
        \<and> connected (client (LDAPClient_Close t self)) = 0)
      \<and> (connected self \<noteq> 0 \<and> ldap_unbind_ext_s t = LDAP_SUCCESS \<longrightarrow>
          connected (client (LDAPClient_Close t self)) = 0)"
    by (simp add: LDAPClient_Close_def Let_def)
  from search getentry rootdse del delstr whoami conn close show ?thesis
    by blast
qed

theorem operations_frame_witness:
  "client (LDAPClient_Search example_server example_locals bound_session
      (Parsed (search_call ''dc=example,dc=com''))) = bound_session
   \<and> client (LDAPClient_Whoami example_server bound_session) = bound_session
   \<and> connected (client (LDAPClient_Connect example_server fresh_session
        (Parsed (simple_bind ''cn=admin'' ''secret'')))) = 1
   \<and> connected (client (LDAPClient_Connect example_server fresh_session
        (Parsed (simple_bind ''cn=admin'' ''wrong'')))) = 0
   \<and> connected (client (LDAPClient_Close example_server bound_session)) = 0
   \<and> connected (client (LDAPClient_Close (example_server\<lparr>ldap_unbind_ext_s := 1\<rparr>)
        bound_session)) = 1"
  using operations_frame [of example_server example_locals bound_session
      "Parsed (search_call ''dc=example,dc=com'')" "Parsed ''cn=bob,dc=example,dc=com''"
      "Parsed ''cn=bob,dc=example,dc=com''" None
      "Parsed (simple_bind ''cn=admin'' ''secret'')"]
    operations_frame [of example_server example_locals fresh_session
      "Parsed (search_call ''dc=example,dc=com'')" "Parsed ''cn=bob,dc=example,dc=com''"
      "Parsed ''cn=bob,dc=example,dc=com''" None
      "Parsed (simple_bind ''cn=admin'' ''secret'')"]
  by (simp add: example_defs ldap_consts LDAPClient_Connect_def LDAPClient_Close_def
      starts_tls_def connect_bind_def connect_prelude_def Let_def)

end
